theory Spec2Isabelle
  imports Complex_Main "HOL-Library.Word"
begin

section \<open>CloudVault: data model\<close>

text \<open>
  The embedding follows the TypeScript sources of the API and worker packages.
  Each \<^verbatim>\<open>async\<close> function becomes a function that takes the state of the
  collaborator it talks to (the Prisma tables, the BullMQ job list, the list of pre-signed
  URLs issued) and returns the new state; an exception becomes \<open>Inl\<close> of an
  \<open>error\<close>; \<^verbatim>\<open>null\<close> and \<^verbatim>\<open>undefined\<close> become \<open>None\<close>. The clock
  (\<^verbatim>\<open>new Date()\<close>, \<^verbatim>\<open>Date.now()\<close>, in milliseconds), the random bytes, the
  identifiers chosen by \<^verbatim>\<open>nanoid()\<close> and by the database, and SHA-256 are arguments.
  Columns the database maintains by itself (\<^verbatim>\<open>createdAt\<close>, \<^verbatim>\<open>updatedAt\<close>) and
  console output are left out. The database, Redis and the URL signer are taken to be
  reachable; the failures modelled are the ones the code can cause or handles itself.
\<close>

subsection \<open>\<^verbatim>\<open>shared/src/types.ts\<close>\<close>

datatype FileStatus = PENDING_UPLOAD | UPLOADED | PROCESSING | PROCESSED | FAILED | DELETED

fun status_name :: "FileStatus \<Rightarrow> string" where
  "status_name PENDING_UPLOAD = ''PENDING_UPLOAD''"
| "status_name UPLOADED = ''UPLOADED''"
| "status_name PROCESSING = ''PROCESSING''"
| "status_name PROCESSED = ''PROCESSED''"
| "status_name FAILED = ''FAILED''"
| "status_name DELETED = ''DELETED''"

text \<open>
  JSON values, as far as the code builds or stores them. \<open>JDate t\<close> is the string
  \<^verbatim>\<open>new Date(t).toISOString()\<close>, kept as its instant.
\<close>

datatype json = JNull | JBool bool | JNumber int | JString string | JDate int
  | JObject "(string \<times> json) list"

text \<open>\<^verbatim>\<open>s.startsWith(p)\<close>\<close>

definition startsWith :: "string \<Rightarrow> string \<Rightarrow> bool" where
  "startsWith s p = (take (length p) s = p)"

text \<open>\<^verbatim>\<open>Number.isInteger\<close> on a finite number.\<close>

definition isInteger :: "rat \<Rightarrow> bool" where
  "isInteger r = (of_int \<lfloor>r\<rfloor> = r)"

subsection \<open>Errors and responses\<close>

text \<open>
  The exceptions the modelled code can raise: Prisma's \<^verbatim>\<open>update\<close> on a row that does
  not exist, \<^verbatim>\<open>create\<close> under a primary key already present or with a foreign key
  that matches no row, \<^verbatim>\<open>BigInt(x)\<close> on a number that is not an integer, and the
  worker's \<^verbatim>\<open>throw new Error(`Unknown job type: ...`)\<close>.
\<close>

datatype error = RecordNotFound | UniqueConstraintFailed | ForeignKeyFailed | RangeError
  | UnknownJobType string

record serialized_file =
  sf_id :: string
  sf_originalName :: string
  sf_mimeType :: string
  sf_size :: int
  sf_checksum :: "string option"
  sf_status :: FileStatus
  sf_metadata :: "json option"
  sf_tags :: "string list"

text \<open>
  The command a URL is signed for: \<open>PutObject bucket key contentType contentLength\<close>
  and \<open>GetObject bucket key responseContentDisposition\<close>. A pre-signed URL is kept
  as the command and the lifetime (seconds) it was signed with.
\<close>

datatype s3_command =
    PutObject string string string rat
  | GetObject string string "string option"

record signed_url =
  url_command :: s3_command
  url_expiresIn :: int

text \<open>
  What a route handler or a middleware does with the request: it sends a response
  (\<^verbatim>\<open>res.status(n).json(body)\<close>, status 200 when none is set), calls \<^verbatim>\<open>next()\<close>,
  or calls \<^verbatim>\<open>next(error)\<close> from its \<^verbatim>\<open>catch\<close> block. \<open>ErrorBody code message\<close>
  is \<^verbatim>\<open>{ error: { code, message } }\<close> (the \<^verbatim>\<open>details\<close> of a validation error are
  left out).
\<close>

datatype response_body =
    ErrorBody string string
  | UploadUrlBody string signed_url string int
  | FileBody serialized_file
  | DownloadUrlBody signed_url int string
  | ConfirmBody serialized_file string
  | EmptyBody

datatype outcome =
    Respond nat response_body
  | Next
  | NextError error

subsection \<open>\<^verbatim>\<open>middlewares/auth.middleware.ts\<close>\<close>

record auth_context =
  authOrganizationId :: string
  apiKeyId :: string
  permissions :: "string list"
  organizationName :: string

text \<open>
  \<^verbatim>\<open>requirePermission(permission)\<close> returns a middleware; \<open>req.auth\<close> is
  \<open>None\<close> when no authentication middleware has set it.
\<close>

definition requirePermission :: "string \<Rightarrow> auth_context option \<Rightarrow> outcome" where
  "requirePermission permission auth =
     (case auth of
        None \<Rightarrow> Respond 401 (ErrorBody ''AUTHENTICATION_ERROR'' ''Not authenticated.'')
      | Some a \<Rightarrow>
          if permission \<notin> set (permissions a) \<and> ''admin'' \<notin> set (permissions a)
          then Respond 403 (ErrorBody ''AUTHORIZATION_ERROR''
                 (''Permission '' @ [CHR 0x27] @ permission @ [CHR 0x27] @ '' required.''))
          else Next)"

subsection \<open>\<^verbatim>\<open>services/file.service.ts\<close>\<close>

text \<open>
  A row of the \<^verbatim>\<open>file\<close> table. The table is a map from the primary key \<^verbatim>\<open>id\<close>
  to the rest of the row, so \<^verbatim>\<open>file.id\<close> of a row found under \<open>fileId\<close> is
  \<open>fileId\<close>. \<open>fsize\<close> is the column \<^verbatim>\<open>size\<close> (a \<^verbatim>\<open>bigint\<close>).
\<close>

record file_row =
  organizationId :: string
  bucket :: string
  key :: string
  originalName :: string
  mimeType :: string
  fsize :: int
  checksum :: "string option"
  status :: FileStatus
  processingState :: "json option"
  metadata :: "json option"
  tags :: "string list"
  uploadedBy :: "string option"

type_synonym file_table = "string \<rightharpoonup> file_row"

record CreateFileParams =
  p_organizationId :: string
  p_bucket :: string
  p_key :: string
  p_originalName :: string
  p_mimeType :: string
  p_size :: rat
  p_uploadedBy :: string
  p_tags :: "string list option"
  p_metadata :: "json option"

text \<open>
  \<^verbatim>\<open>createFileRecord(params)\<close>; \<open>newId\<close> is the id the database gives the row.
\<close>

definition createFileRecord ::
  "string \<Rightarrow> CreateFileParams \<Rightarrow> file_table \<Rightarrow> error + (file_row \<times> file_table)" where
  "createFileRecord newId params tbl =
     (if \<not> isInteger (p_size params) then Inl RangeError
      else if tbl newId \<noteq> None then Inl UniqueConstraintFailed
      else
        let f = \<lparr> organizationId = p_organizationId params,
                  bucket = p_bucket params,
                  key = p_key params,
                  originalName = p_originalName params,
                  mimeType = p_mimeType params,
                  fsize = \<lfloor>p_size params\<rfloor>,
                  checksum = None,
                  status = PENDING_UPLOAD,
                  processingState = None,
                  metadata = p_metadata params,
                  tags = (case p_tags params of None \<Rightarrow> [] | Some ts \<Rightarrow> ts),
                  uploadedBy = Some (p_uploadedBy params) \<rparr>
        in Inr (f, tbl(newId \<mapsto> f)))"

text \<open>
  \<^verbatim>\<open>getFileById(fileId, organizationId)\<close>: \<^verbatim>\<open>findFirst\<close> where the id and the
  organization match and the status is not \<open>DELETED\<close>.
\<close>

definition getFileById :: "string \<Rightarrow> string \<Rightarrow> file_table \<Rightarrow> file_row option" where
  "getFileById fileId orgId tbl =
     (case tbl fileId of
        None \<Rightarrow> None
      | Some f \<Rightarrow> if organizationId f = orgId \<and> status f \<noteq> DELETED then Some f else None)"

text \<open>
  \<^verbatim>\<open>updateFileStatus(fileId, organizationId, status, processingState?)\<close>: an
  \<^verbatim>\<open>update\<close> whose \<^verbatim>\<open>where\<close> is \<^verbatim>\<open>{ id: fileId }\<close> alone; the organization id
  is not used. It returns the updated row.
\<close>

definition updateFileStatus ::
  "string \<Rightarrow> string \<Rightarrow> FileStatus \<Rightarrow> json option \<Rightarrow> file_table \<Rightarrow> error + (file_row \<times> file_table)" where
  "updateFileStatus fileId orgId newStatus newProcessingState tbl =
     (case tbl fileId of
        None \<Rightarrow> Inl RecordNotFound
      | Some f \<Rightarrow>
          let f' = f\<lparr> status := newStatus,
                      processingState := (case newProcessingState of
                                            None \<Rightarrow> processingState f
                                          | Some ps \<Rightarrow> Some ps) \<rparr>
          in Inr (f', tbl(fileId \<mapsto> f')))"

definition markFileUploaded :: "string \<Rightarrow> string \<Rightarrow> file_table \<Rightarrow> error + (file_row \<times> file_table)" where
  "markFileUploaded fileId orgId tbl = updateFileStatus fileId orgId UPLOADED None tbl"

text \<open>
  \<^verbatim>\<open>updateFileMetadata(fileId, metadata, checksum?)\<close>: one \<^verbatim>\<open>update\<close> that
  writes the metadata, the checksum when it is a non-empty string, and the status
  \<open>PROCESSED\<close>.
\<close>

definition updateFileMetadata ::
  "string \<Rightarrow> json \<Rightarrow> string option \<Rightarrow> file_table \<Rightarrow> error + (file_row \<times> file_table)" where
  "updateFileMetadata fileId newMetadata newChecksum tbl =
     (case tbl fileId of
        None \<Rightarrow> Inl RecordNotFound
      | Some f \<Rightarrow>
          let f' = f\<lparr> metadata := Some newMetadata,
                      checksum := (case newChecksum of
                                     None \<Rightarrow> checksum f
                                   | Some c \<Rightarrow> if c = [] then checksum f else Some c),
                      status := PROCESSED \<rparr>
          in Inr (f', tbl(fileId \<mapsto> f')))"

text \<open>\<^verbatim>\<open>serializeFile(file)\<close>; \<^verbatim>\<open>Number(file.size)\<close> is exact below \<open>2^53\<close>.\<close>

definition serializeFile :: "string \<Rightarrow> file_row \<Rightarrow> serialized_file" where
  "serializeFile fileId f =
     \<lparr> sf_id = fileId, sf_originalName = originalName f, sf_mimeType = mimeType f,
       sf_size = fsize f, sf_checksum = checksum f, sf_status = status f,
       sf_metadata = metadata f, sf_tags = tags f \<rparr>"

subsection \<open>\<^verbatim>\<open>services/audit.service.ts\<close>\<close>

record AuditLogParams =
  a_fileId :: "string option"
  a_organizationId :: string
  a_action :: string
  a_actor :: string
  a_details :: "json option"
  a_correlationId :: "string option"

definition createAuditLog :: "AuditLogParams \<Rightarrow> AuditLogParams list \<Rightarrow> AuditLogParams list" where
  "createAuditLog params logs = logs @ [params]"

subsection \<open>\<^verbatim>\<open>services/queue.service.ts\<close>\<close>

definition VALIDATE_FILE :: string where "VALIDATE_FILE = ''validate-file''"
definition GENERATE_CHECKSUM :: string where "GENERATE_CHECKSUM = ''generate-checksum''"
definition EXTRACT_METADATA :: string where "EXTRACT_METADATA = ''extract-metadata''"
definition GENERATE_THUMBNAIL :: string where "GENERATE_THUMBNAIL = ''generate-thumbnail''"

record FileJobData =
  fileId :: string
  jobOrganizationId :: string
  jobKey :: string
  jobBucket :: string
  jobMimeType :: string
  correlationId :: "string option"

record backoff_options =
  backoffType :: string
  backoffDelay :: nat

record job_options =
  attempts :: nat
  backoff :: backoff_options
  priority :: "nat option"

record job =
  jobName :: string
  jobData :: FileJobData
  jobOpts :: job_options

text \<open>
  \<^verbatim>\<open>getFileProcessingQueue()\<close> builds the queue once, with these
  \<^verbatim>\<open>defaultJobOptions\<close>; the jobs themselves live in Redis, modelled as the list of
  jobs added so far.
\<close>

definition defaultJobOptions :: job_options where
  "defaultJobOptions =
     \<lparr> attempts = 3, backoff = \<lparr> backoffType = ''exponential'', backoffDelay = 1000 \<rparr>,
       priority = None \<rparr>"

text \<open>
  \<^verbatim>\<open>queue.add(name, data, { priority })\<close>: BullMQ merges the options given over the
  queue's defaults.
\<close>

definition queue_add :: "string \<Rightarrow> FileJobData \<Rightarrow> nat \<Rightarrow> job list \<Rightarrow> job list" where
  "queue_add name d prio js =
     js @ [\<lparr> jobName = name, jobData = d, jobOpts = defaultJobOptions\<lparr> priority := Some prio \<rparr> \<rparr>]"

definition enqueueFileProcessing :: "FileJobData \<Rightarrow> job list \<Rightarrow> job list" where
  "enqueueFileProcessing params js =
     (let jobData = params;
          js1 = queue_add EXTRACT_METADATA jobData 3
                  (queue_add GENERATE_CHECKSUM jobData 2
                    (queue_add VALIDATE_FILE jobData 1 js))
      in if startsWith (jobMimeType params) ''image/''
         then queue_add GENERATE_THUMBNAIL jobData 4 js1
         else js1)"

subsection \<open>\<^verbatim>\<open>services/storage.service.ts\<close>\<close>

record s3_config =
  cfg_bucket :: string
  uploadExpiry :: int
  downloadExpiry :: int

text \<open>
  \<^verbatim>\<open>generateUploadUrl\<close> and \<^verbatim>\<open>generateDownloadUrl\<close> return the URL and
  \<^verbatim>\<open>expiresAt\<close>; the last argument is the list of URLs signed so far.
\<close>

definition generateUploadUrl ::
  "s3_config \<Rightarrow> int \<Rightarrow> string \<Rightarrow> string \<Rightarrow> rat \<Rightarrow> signed_url list
     \<Rightarrow> (signed_url \<times> int) \<times> signed_url list" where
  "generateUploadUrl cfg now k contentType contentLength issued =
     (let u = \<lparr> url_command = PutObject (cfg_bucket cfg) k contentType contentLength,
                 url_expiresIn = uploadExpiry cfg \<rparr>;
          expiresAt = now + uploadExpiry cfg * 1000
      in ((u, expiresAt), issued @ [u]))"

definition generateDownloadUrl ::
  "s3_config \<Rightarrow> int \<Rightarrow> string \<Rightarrow> string option \<Rightarrow> signed_url list
     \<Rightarrow> (signed_url \<times> int) \<times> signed_url list" where
  "generateDownloadUrl cfg now k filename issued =
     (let disposition =
            (case filename of
               None \<Rightarrow> None
             | Some n \<Rightarrow> if n = [] then None
                         else Some (''attachment; filename='' @ [CHR 0x22] @ n @ [CHR 0x22]));
          u = \<lparr> url_command = GetObject (cfg_bucket cfg) k disposition,
                 url_expiresIn = downloadExpiry cfg \<rparr>;
          expiresAt = now + downloadExpiry cfg * 1000
      in ((u, expiresAt), issued @ [u]))"

subsection \<open>\<^verbatim>\<open>validators/file.validators.ts\<close>\<close>

definition ALLOWED_MIME_TYPES :: "string list" where
  "ALLOWED_MIME_TYPES =
     [''application/pdf'', ''image/jpeg'', ''image/png'', ''image/gif'', ''image/webp'',
      ''text/csv'', ''text/plain'', ''application/json'',
      ''application/vnd.openxmlformats-officedocument.spreadsheetml.sheet'',
      ''application/vnd.ms-excel'']"

definition MAX_FILE_SIZE :: rat where
  "MAX_FILE_SIZE = 100 * 1024 * 1024"

text \<open>
  The request body, with each field already of the JSON type the schema asks for
  (a body with a field of another type fails the schema as well).
\<close>

record UploadRequest =
  req_filename :: string
  req_contentType :: string
  req_size :: rat
  req_tags :: "string list option"
  req_metadata :: "json option"

text \<open>\<^verbatim>\<open>uploadRequestSchema.safeParse(body).success\<close>\<close>

definition uploadRequestSchema :: "UploadRequest \<Rightarrow> bool" where
  "uploadRequestSchema b =
     (1 \<le> length (req_filename b) \<and> length (req_filename b) \<le> 255
      \<and> req_contentType b \<in> set ALLOWED_MIME_TYPES
      \<and> isInteger (req_size b) \<and> 0 < req_size b \<and> req_size b \<le> MAX_FILE_SIZE
      \<and> (case req_tags b of
            None \<Rightarrow> True
          | Some ts \<Rightarrow> list_all (\<lambda>t. length t \<le> 50) ts \<and> length ts \<le> 10))"

subsection \<open>\<^verbatim>\<open>routes/file.routes.ts\<close>\<close>

text \<open>What the file routes read and write.\<close>

record system =
  files :: file_table
  auditLogs :: "AuditLogParams list"
  jobs :: "job list"
  issuedUrls :: "signed_url list"

definition not_found :: outcome where
  "not_found = Respond 404 (ErrorBody ''NOT_FOUND'' ''File not found'')"

text \<open>
  A route is \<^verbatim>\<open>requirePermission(p)\<close> followed by its handler, which reads
  \<^verbatim>\<open>req.auth!\<close>.
\<close>

definition route ::
  "string \<Rightarrow> (auth_context \<Rightarrow> system \<Rightarrow> outcome \<times> system) \<Rightarrow> auth_context option \<Rightarrow> system
     \<Rightarrow> outcome \<times> system" where
  "route permission handler auth st =
     (case auth of
        None \<Rightarrow> (requirePermission permission None, st)
      | Some a \<Rightarrow>
          (case requirePermission permission (Some a) of
             Next \<Rightarrow> handler a st
           | r \<Rightarrow> (r, st)))"

text \<open>\<^verbatim>\<open>softDeleteFile(fileId, organizationId, actor, correlationId)\<close>\<close>

definition softDeleteFile ::
  "string \<Rightarrow> string \<Rightarrow> string \<Rightarrow> string option \<Rightarrow> system \<Rightarrow> error + (file_row \<times> system)" where
  "softDeleteFile fid orgId actor corr st =
     (case files st fid of
        None \<Rightarrow> Inl RecordNotFound
      | Some f \<Rightarrow>
          let f' = f\<lparr> status := DELETED \<rparr>;
              st1 = st\<lparr> files := (files st)(fid \<mapsto> f') \<rparr>;
              st2 = st1\<lparr> auditLogs := createAuditLog
                      \<lparr> a_fileId = Some fid, a_organizationId = orgId, a_action = ''deleted'',
                        a_actor = actor, a_details = None, a_correlationId = corr \<rparr>
                      (auditLogs st1) \<rparr>
          in Inr (f', st2))"

text \<open>\<^verbatim>\<open>POST /upload-url\<close>\<close>

definition upload_url_handler ::
  "s3_config \<Rightarrow> int \<Rightarrow> string \<Rightarrow> string \<Rightarrow> string option \<Rightarrow> UploadRequest \<Rightarrow> auth_context
     \<Rightarrow> system \<Rightarrow> outcome \<times> system" where
  "upload_url_handler cfg now nano newId corr body a st =
     (if \<not> uploadRequestSchema body
      then (Respond 400 (ErrorBody ''VALIDATION_ERROR'' ''Invalid request body''), st)
      else
        let org = authOrganizationId a;
            s3Key = org @ ''/'' @ nano @ ''/'' @ req_filename body
        in case createFileRecord newId
                  \<lparr> p_organizationId = org, p_bucket = cfg_bucket cfg, p_key = s3Key,
                    p_originalName = req_filename body, p_mimeType = req_contentType body,
                    p_size = req_size body, p_uploadedBy = apiKeyId a,
                    p_tags = req_tags body, p_metadata = req_metadata body \<rparr>
                  (files st) of
             Inl e \<Rightarrow> (NextError e, st)
           | Inr (f, tbl) \<Rightarrow>
               let st1 = st\<lparr> files := tbl \<rparr>;
                   st2 = st1\<lparr> auditLogs := createAuditLog
                           \<lparr> a_fileId = Some newId, a_organizationId = org,
                             a_action = ''upload_requested'', a_actor = apiKeyId a,
                             a_details = Some (JObject
                               [(''filename'', JString (req_filename body)),
                                (''contentType'', JString (req_contentType body)),
                                (''size'', JNumber \<lfloor>req_size body\<rfloor>)]),
                             a_correlationId = corr \<rparr>
                           (auditLogs st1) \<rparr>;
                   ((u, expiresAt), issued) =
                     generateUploadUrl cfg now s3Key (req_contentType body) (req_size body)
                       (issuedUrls st2)
               in (Respond 201 (UploadUrlBody newId u s3Key expiresAt),
                   st2\<lparr> issuedUrls := issued \<rparr>))"

text \<open>\<^verbatim>\<open>GET /:id\<close>\<close>

definition get_file_handler ::
  "string \<Rightarrow> string option \<Rightarrow> auth_context \<Rightarrow> system \<Rightarrow> outcome \<times> system" where
  "get_file_handler fid corr a st =
     (case getFileById fid (authOrganizationId a) (files st) of
        None \<Rightarrow> (not_found, st)
      | Some f \<Rightarrow>
          (Respond 200 (FileBody (serializeFile fid f)),
           st\<lparr> auditLogs := createAuditLog
                  \<lparr> a_fileId = Some fid, a_organizationId = authOrganizationId a,
                    a_action = ''accessed'', a_actor = apiKeyId a, a_details = None,
                    a_correlationId = corr \<rparr>
                  (auditLogs st) \<rparr>))"

text \<open>\<^verbatim>\<open>GET /:id/download-url\<close>\<close>

definition download_url_handler ::
  "s3_config \<Rightarrow> int \<Rightarrow> string \<Rightarrow> string option \<Rightarrow> auth_context \<Rightarrow> system
     \<Rightarrow> outcome \<times> system" where
  "download_url_handler cfg now fid corr a st =
     (case getFileById fid (authOrganizationId a) (files st) of
        None \<Rightarrow> (not_found, st)
      | Some f \<Rightarrow>
          if status f \<noteq> PROCESSED \<and> status f \<noteq> UPLOADED
          then (Respond 400 (ErrorBody ''INVALID_STATE''
                  (''File is not ready for download (status: '' @ status_name (status f) @ '')'')),
                st)
          else
            let ((u, expiresAt), issued) =
                  generateDownloadUrl cfg now (key f) (Some (originalName f)) (issuedUrls st);
                st1 = st\<lparr> issuedUrls := issued \<rparr>;
                st2 = st1\<lparr> auditLogs := createAuditLog
                        \<lparr> a_fileId = Some fid, a_organizationId = authOrganizationId a,
                          a_action = ''download_requested'', a_actor = apiKeyId a,
                          a_details = None, a_correlationId = corr \<rparr>
                        (auditLogs st1) \<rparr>
            in (Respond 200 (DownloadUrlBody u expiresAt (originalName f)), st2))"

text \<open>\<^verbatim>\<open>DELETE /:id\<close>\<close>

definition delete_file_handler ::
  "string \<Rightarrow> string option \<Rightarrow> auth_context \<Rightarrow> system \<Rightarrow> outcome \<times> system" where
  "delete_file_handler fid corr a st =
     (case getFileById fid (authOrganizationId a) (files st) of
        None \<Rightarrow> (not_found, st)
      | Some f \<Rightarrow>
          (case softDeleteFile fid (authOrganizationId a) (apiKeyId a) corr st of
             Inl e \<Rightarrow> (NextError e, st)
           | Inr (f', st') \<Rightarrow> (Respond 204 EmptyBody, st')))"

text \<open>
  \<^verbatim>\<open>POST /:id/confirm-upload\<close>. The handler suspends at its first \<^verbatim>\<open>await\<close>, the
  read of the file; \<open>confirm_upload_continue\<close> is the rest of the handler, run with
  what the read returned on the state as it is by then. Run without anything in between,
  the two make the handler.
\<close>

definition confirm_upload_read :: "string \<Rightarrow> auth_context \<Rightarrow> system \<Rightarrow> file_row option" where
  "confirm_upload_read fid a st = getFileById fid (authOrganizationId a) (files st)"

definition confirm_upload_continue ::
  "string \<Rightarrow> string option \<Rightarrow> auth_context \<Rightarrow> file_row option \<Rightarrow> system \<Rightarrow> outcome \<times> system" where
  "confirm_upload_continue fid corr a found st =
     (case found of
        None \<Rightarrow> (not_found, st)
      | Some f \<Rightarrow>
          if status f \<noteq> PENDING_UPLOAD
          then (Respond 400 (ErrorBody ''INVALID_STATE''
                  (''File is already in '' @ status_name (status f) @ '' state'')), st)
          else
            (case markFileUploaded fid (authOrganizationId a) (files st) of
               Inl e \<Rightarrow> (NextError e, st)
             | Inr (updatedFile, tbl) \<Rightarrow>
                 let st1 = st\<lparr> files := tbl \<rparr>;
                     st2 = st1\<lparr> auditLogs := createAuditLog
                             \<lparr> a_fileId = Some fid, a_organizationId = authOrganizationId a,
                               a_action = ''uploaded'', a_actor = apiKeyId a,
                               a_details = None, a_correlationId = corr \<rparr>
                             (auditLogs st1) \<rparr>;
                     st3 = st2\<lparr> jobs := enqueueFileProcessing
                             \<lparr> fileId = fid, jobOrganizationId = authOrganizationId a,
                               jobKey = key f, jobBucket = bucket f, jobMimeType = mimeType f,
                               correlationId = corr \<rparr>
                             (jobs st2) \<rparr>
                 in (Respond 200 (ConfirmBody (serializeFile fid updatedFile)
                       ''File upload confirmed. Processing queued.''), st3)))"

definition confirm_upload_handler ::
  "string \<Rightarrow> string option \<Rightarrow> auth_context \<Rightarrow> system \<Rightarrow> outcome \<times> system" where
  "confirm_upload_handler fid corr a st =
     confirm_upload_continue fid corr a (confirm_upload_read fid a st) st"

text \<open>The routes: each handler behind its permission check.\<close>

definition upload_url_route ::
  "s3_config \<Rightarrow> int \<Rightarrow> string \<Rightarrow> string \<Rightarrow> string option \<Rightarrow> UploadRequest
     \<Rightarrow> auth_context option \<Rightarrow> system \<Rightarrow> outcome \<times> system" where
  "upload_url_route cfg now nano newId corr body =
     route ''upload'' (upload_url_handler cfg now nano newId corr body)"

definition get_file_route ::
  "string \<Rightarrow> string option \<Rightarrow> auth_context option \<Rightarrow> system \<Rightarrow> outcome \<times> system" where
  "get_file_route fid corr = route ''read'' (get_file_handler fid corr)"

definition download_url_route ::
  "s3_config \<Rightarrow> int \<Rightarrow> string \<Rightarrow> string option \<Rightarrow> auth_context option \<Rightarrow> system
     \<Rightarrow> outcome \<times> system" where
  "download_url_route cfg now fid corr = route ''read'' (download_url_handler cfg now fid corr)"

definition delete_file_route ::
  "string \<Rightarrow> string option \<Rightarrow> auth_context option \<Rightarrow> system \<Rightarrow> outcome \<times> system" where
  "delete_file_route fid corr = route ''delete'' (delete_file_handler fid corr)"

definition confirm_upload_route ::
  "string \<Rightarrow> string option \<Rightarrow> auth_context option \<Rightarrow> system \<Rightarrow> outcome \<times> system" where
  "confirm_upload_route fid corr = route ''upload'' (confirm_upload_handler fid corr)"

text \<open>
  Two confirmations of one file. In \<open>confirm_upload_twice\<close> the second request starts
  when the first has answered. In \<open>confirm_upload_interleaved\<close> both requests have
  passed their first \<^verbatim>\<open>await\<close> (the read) before either goes on: the schedule of two
  requests that arrive together, on one instance or on two.
\<close>

definition confirm_upload_twice ::
  "string \<Rightarrow> auth_context \<Rightarrow> system \<Rightarrow> outcome \<times> outcome \<times> system" where
  "confirm_upload_twice fid a st =
     (let (o1, st1) = confirm_upload_handler fid None a st;
          (o2, st2) = confirm_upload_handler fid None a st1
      in (o1, o2, st2))"

definition confirm_upload_interleaved ::
  "string \<Rightarrow> auth_context \<Rightarrow> system \<Rightarrow> outcome \<times> outcome \<times> system" where
  "confirm_upload_interleaved fid a st =
     (let r1 = confirm_upload_read fid a st;
          r2 = confirm_upload_read fid a st;
          (o1, st1) = confirm_upload_continue fid None a r1 st;
          (o2, st2) = confirm_upload_continue fid None a r2 st1
      in (o1, o2, st2))"

subsection \<open>\<^verbatim>\<open>services/auth.service.ts\<close>\<close>

text \<open>\<^verbatim>\<open>buffer.toString('hex')\<close>: two lower-case hexadecimal digits per byte.\<close>

definition hexdigit :: "nat \<Rightarrow> char" where
  "hexdigit n = ''0123456789abcdef'' ! (n mod 16)"



text \<open>
  \<^verbatim>\<open>hashApiKey(key)\<close> is the SHA-256 digest of the key in hexadecimal; the digest
  function is the argument \<open>sha256\<close>.
\<close>

definition hashApiKey :: "(string \<Rightarrow> string) \<Rightarrow> string \<Rightarrow> string" where
  "hashApiKey sha256 k = sha256 k"


record organization =
  org_id :: string
  org_name :: string

text \<open>
  A row of the \<^verbatim>\<open>apiKey\<close> table, together with the organization row it refers to
  (what \<^verbatim>\<open>include: { organization: true }\<close> returns with it).
\<close>

record api_key =
  keyId :: string
  keyPrefix :: string
  hashedKey :: string
  keyName :: string
  keyOrganizationId :: string
  keyPermissions :: "string list"
  expiresAt :: "int option"
  lastUsedAt :: "int option"
  keyOrganization :: organization

text \<open>
  The credential store: the two tables, and the hashes the store has been asked to look
  up (one entry per \<^verbatim>\<open>findFirst\<close> on \<^verbatim>\<open>hashedKey\<close>).
\<close>

record credential_store =
  organizations :: "organization list"
  apiKeys :: "api_key list"
  hashLookups :: "string list"

text \<open>
  The fire-and-forget \<^verbatim>\<open>prisma.apiKey.update(...).catch(() => {})\<close>: \<open>updateOk\<close>
  tells whether the update goes through; when it does not, the rejection is dropped.
\<close>

definition touchLastUsed :: "bool \<Rightarrow> string \<Rightarrow> int \<Rightarrow> credential_store \<Rightarrow> credential_store" where
  "touchLastUsed updateOk kid now store =
     (if updateOk
      then store\<lparr> apiKeys := map (\<lambda>r. if keyId r = kid then r\<lparr> lastUsedAt := Some now \<rparr> else r)
                                (apiKeys store) \<rparr>
      else store)"

definition validateApiKey ::
  "(string \<Rightarrow> string) \<Rightarrow> int \<Rightarrow> bool \<Rightarrow> string \<Rightarrow> credential_store
     \<Rightarrow> api_key option \<times> credential_store" where
  "validateApiKey sha256 now updateOk k store =
     (if k = [] \<or> \<not> startsWith k ''cv_'' then (None, store)
      else
        let h = hashApiKey sha256 k;
            store1 = store\<lparr> hashLookups := hashLookups store @ [h] \<rparr>
        in case find (\<lambda>r. hashedKey r = h) (apiKeys store1) of
             None \<Rightarrow> (None, store1)
           | Some apiKey \<Rightarrow>
               if (case expiresAt apiKey of None \<Rightarrow> False | Some t \<Rightarrow> t < now)
               then (None, store1)
               else (Some apiKey, touchLastUsed updateOk (keyId apiKey) now store1))"




subsection \<open>\<^verbatim>\<open>worker/src/workers/file.worker.ts\<close>\<close>

text \<open>\<^verbatim>\<open>n.toString(16)\<close> of a natural number.\<close>

fun toString16 :: "nat \<Rightarrow> string" where
  "toString16 n = (if n < 16 then [hexdigit n] else toString16 (n div 16) @ [hexdigit (n mod 16)])"

text \<open>The three simulated processing functions; each returns its result as JSON.\<close>

definition validateFile :: "FileJobData \<Rightarrow> json" where
  "validateFile d = JObject [(''valid'', JBool True)]"

definition generateChecksum :: "nat \<Rightarrow> FileJobData \<Rightarrow> json" where
  "generateChecksum now d = JString (''sha256-'' @ toString16 now)"

definition extractMetadata :: "nat \<Rightarrow> FileJobData \<Rightarrow> json" where
  "extractMetadata now d =
     JObject [(''extractedAt'', JDate (int now)), (''mimeType'', JString (jobMimeType d)),
              (''processingVersion'', JString ''1.0.0'')]"

text \<open>
  \<^verbatim>\<open>processFileJob(job)\<close>, the processor of the worker. It is given the file table
  and returns it as it leaves it: the worker makes no call to the file service.
\<close>

definition processFileJob :: "nat \<Rightarrow> job \<Rightarrow> file_table \<Rightarrow> (error + json) \<times> file_table" where
  "processFileJob now j tbl =
     (if jobName j = VALIDATE_FILE then (Inr (validateFile (jobData j)), tbl)
      else if jobName j = GENERATE_CHECKSUM then (Inr (generateChecksum now (jobData j)), tbl)
      else if jobName j = EXTRACT_METADATA then (Inr (extractMetadata now (jobData j)), tbl)
      else if jobName j = GENERATE_THUMBNAIL
      then (Inr (JObject [(''skipped'', JBool True),
                          (''reason'', JString ''Not an image or thumbnail generation not implemented'')]),
            tbl)
      else (Inl (UnknownJobType (jobName j)), tbl))"

subsection \<open>Example data\<close>

text \<open>
  The scenario of the specification: organization \<open>orgA\<close> (``Acme'') holds the file
  \<open>f1\<close>, \<^verbatim>\<open>report.pdf\<close> of 1200 bytes; \<open>orgB\<close> is another tenant. Both callers
  hold an admin key.
\<close>

definition example_file :: "FileStatus \<Rightarrow> file_row" where
  "example_file s =
     \<lparr> organizationId = ''orgA'', bucket = ''cloudvault-files'',
       key = ''orgA/n1/report.pdf'', originalName = ''report.pdf'',
       mimeType = ''application/pdf'', fsize = 1200, checksum = None, status = s,
       processingState = None, metadata = None, tags = [], uploadedBy = Some ''keyA'' \<rparr>"

definition example_system :: "FileStatus \<Rightarrow> system" where
  "example_system s =
     \<lparr> files = [''f1'' \<mapsto> example_file s], auditLogs = [], jobs = [], issuedUrls = [] \<rparr>"

definition empty_system :: system where
  "empty_system = \<lparr> files = Map.empty, auditLogs = [], jobs = [], issuedUrls = [] \<rparr>"

definition callerA :: auth_context where
  "callerA = \<lparr> authOrganizationId = ''orgA'', apiKeyId = ''keyA'',
               permissions = [''upload'', ''read'', ''delete'', ''admin''],
               organizationName = ''Acme'' \<rparr>"

definition callerB :: auth_context where
  "callerB = \<lparr> authOrganizationId = ''orgB'', apiKeyId = ''keyB'',
               permissions = [''upload'', ''read'', ''delete'', ''admin''],
               organizationName = ''Bolt'' \<rparr>"

definition example_config :: s3_config where
  "example_config = \<lparr> cfg_bucket = ''cloudvault-files'', uploadExpiry = 3600, downloadExpiry = 3600 \<rparr>"

definition example_request :: UploadRequest where
  "example_request =
     \<lparr> req_filename = ''report.pdf'', req_contentType = ''application/pdf'', req_size = 1200,
       req_tags = None, req_metadata = None \<rparr>"

definition example_job_data :: "string \<Rightarrow> FileJobData" where
  "example_job_data mt =
     \<lparr> fileId = ''f1'', jobOrganizationId = ''orgA'', jobKey = ''orgA/n1/report.pdf'',
       jobBucket = ''cloudvault-files'', jobMimeType = mt, correlationId = None \<rparr>"

text \<open>
  A stand-in for SHA-256 in the examples, and a credential store holding Acme and one
  key row per argument.
\<close>

definition example_digest :: "string \<Rightarrow> string" where
  "example_digest s = rev s"

definition example_key_row :: "string \<Rightarrow> int option \<Rightarrow> api_key" where
  "example_key_row raw expiry =
     \<lparr> keyId = ''keyA'', keyPrefix = take 11 raw, hashedKey = example_digest raw,
       keyName = ''Default Admin Key'', keyOrganizationId = ''orgA'',
       keyPermissions = [''upload'', ''read'', ''delete'', ''admin''],
       expiresAt = expiry, lastUsedAt = None,
       keyOrganization = \<lparr> org_id = ''orgA'', org_name = ''Acme'' \<rparr> \<rparr>"

definition example_store :: "api_key list \<Rightarrow> credential_store" where
  "example_store rows =
     \<lparr> organizations = [\<lparr> org_id = ''orgA'', org_name = ''Acme'' \<rparr>], apiKeys = rows,
       hashLookups = [] \<rparr>"


section \<open>Auxiliary facts\<close>

text \<open>A caller that passes the permission check reaches the handler.\<close>

lemma route_permitted:
  "requirePermission p (Some a) = Next \<Longrightarrow> route p h (Some a) st = h a st"
  by (simp add: route_def)

text \<open>When \<^verbatim>\<open>getFileById\<close> finds nothing, and when it finds the row.\<close>

lemma getFileById_None_iff:
  "(getFileById fid org tbl = None)
     = (case tbl fid of None \<Rightarrow> True | Some f \<Rightarrow> organizationId f \<noteq> org \<or> status f = DELETED)"
  by (simp add: getFileById_def split: option.splits)

lemma getFileById_visible:
  "tbl fid = Some f \<Longrightarrow> organizationId f = org \<Longrightarrow> status f \<noteq> DELETED
     \<Longrightarrow> getFileById fid org tbl = Some f"
  by (simp add: getFileById_def)

lemma getFileById_deleted:
  "tbl fid = Some f \<Longrightarrow> status f = DELETED \<Longrightarrow> getFileById fid org tbl = None"
  by (simp add: getFileById_def)

text \<open>The confirmation handler on a file it finds, by the status it reads.\<close>

lemma updateFileStatus_present:
  "tbl fid = Some f \<Longrightarrow>
     updateFileStatus fid org s None tbl = Inr (f\<lparr>status := s\<rparr>, tbl(fid \<mapsto> f\<lparr>status := s\<rparr>))"
  by (simp add: updateFileStatus_def Let_def)

lemma confirm_upload_handler_pending:
  assumes row: "files st fid = Some f"
    and own: "organizationId f = authOrganizationId a"
    and pending: "status f = PENDING_UPLOAD"
  shows "confirm_upload_handler fid corr a st =
           (Respond 200 (ConfirmBody (serializeFile fid (f\<lparr>status := UPLOADED\<rparr>))
              ''File upload confirmed. Processing queued.''),
            st\<lparr> files := (files st)(fid \<mapsto> f\<lparr>status := UPLOADED\<rparr>),
                auditLogs := auditLogs st @
                  [\<lparr> a_fileId = Some fid, a_organizationId = authOrganizationId a,
                     a_action = ''uploaded'', a_actor = apiKeyId a, a_details = None,
                     a_correlationId = corr \<rparr>],
                jobs := enqueueFileProcessing
                  \<lparr> fileId = fid, jobOrganizationId = authOrganizationId a, jobKey = key f,
                    jobBucket = bucket f, jobMimeType = mimeType f, correlationId = corr \<rparr>
                  (jobs st) \<rparr>)"
proof -
  from row own pending have g: "getFileById fid (authOrganizationId a) (files st) = Some f"
    by (simp add: getFileById_visible)
  have w: "markFileUploaded fid (authOrganizationId a) (files st)
             = Inr (f\<lparr>status := UPLOADED\<rparr>, (files st)(fid \<mapsto> f\<lparr>status := UPLOADED\<rparr>))"
    using row by (simp add: markFileUploaded_def updateFileStatus_present)
  show ?thesis
    by (simp add: confirm_upload_handler_def confirm_upload_read_def confirm_upload_continue_def
        g pending w createAuditLog_def Let_def)
qed

lemma confirm_upload_handler_uploaded:
  assumes row: "files st fid = Some f"
    and own: "organizationId f = authOrganizationId a"
    and up: "status f = UPLOADED"
  shows "confirm_upload_handler fid corr a st =
           (Respond 400 (ErrorBody ''INVALID_STATE'' ''File is already in UPLOADED state''), st)"
proof -
  from row own up have g: "getFileById fid (authOrganizationId a) (files st) = Some f"
    by (simp add: getFileById_visible)
  show ?thesis
    by (simp add: confirm_upload_handler_def confirm_upload_read_def confirm_upload_continue_def
        g up)
qed

text \<open>The credential store and lists.\<close>

lemma hashLookups_touchLastUsed [simp]:
  "hashLookups (touchLastUsed ok kid now store) = hashLookups store"
  by (simp add: touchLastUsed_def)




section \<open>Upload confirmation and the status write\<close>

text \<open>
  C1 (as the code has it). \<^verbatim>\<open>updateFileStatus\<close>, the write that moves a file to
  \<open>UPLOADED\<close>, is an update by file id alone: it fails only when no row has the id,
  and succeeds whatever status the row holds. The check for \<open>PENDING_UPLOAD\<close> is made
  by the handler on the row it read before. When two confirmations of a pending file run
  one after the other, the first answers 200, moves the file to \<open>UPLOADED\<close> and
  enqueues the tasks once; the second answers 400 \<open>INVALID_STATE\<close> and changes
  nothing.
\<close>

theorem confirm_upload_unconditional_write:
  "(tbl fid = None \<longrightarrow> updateFileStatus fid org s ps tbl = Inl RecordNotFound)
   \<and> (\<forall>f. tbl fid = Some f \<longrightarrow>
         (\<exists>f'. updateFileStatus fid org s ps tbl = Inr (f', tbl(fid \<mapsto> f')) \<and> status f' = s))
   \<and> (\<forall>f. files st fid = Some f \<and> organizationId f = authOrganizationId a
            \<and> status f = PENDING_UPLOAD \<longrightarrow>
         (\<exists>body st1.
            confirm_upload_handler fid None a st = (Respond 200 body, st1)
            \<and> confirm_upload_twice fid a st
                = (Respond 200 body,
                   Respond 400 (ErrorBody ''INVALID_STATE'' ''File is already in UPLOADED state''),
                   st1)
            \<and> (\<exists>f'. files st1 = (files st)(fid \<mapsto> f') \<and> status f' = UPLOADED)
            \<and> jobs st1 = enqueueFileProcessing
                  \<lparr> fileId = fid, jobOrganizationId = authOrganizationId a, jobKey = key f,
                    jobBucket = bucket f, jobMimeType = mimeType f, correlationId = None \<rparr>
                  (jobs st)))"
proof (intro conjI allI impI)
  assume "tbl fid = None"
  then show "updateFileStatus fid org s ps tbl = Inl RecordNotFound"
    by (simp add: updateFileStatus_def)
next
  fix f assume "tbl fid = Some f"
  then show "\<exists>f'. updateFileStatus fid org s ps tbl = Inr (f', tbl(fid \<mapsto> f')) \<and> status f' = s"
    by (simp add: updateFileStatus_def Let_def)
next
  fix f
  assume h: "files st fid = Some f \<and> organizationId f = authOrganizationId a
             \<and> status f = PENDING_UPLOAD"
  then have row: "files st fid = Some f" and own: "organizationId f = authOrganizationId a"
    and pending: "status f = PENDING_UPLOAD"
    by simp_all
  let ?f' = "f\<lparr>status := UPLOADED\<rparr>"
  let ?body = "ConfirmBody (serializeFile fid ?f') ''File upload confirmed. Processing queued.''"
  let ?st1 = "st\<lparr> files := (files st)(fid \<mapsto> ?f'),
                auditLogs := auditLogs st @
                  [\<lparr> a_fileId = Some fid, a_organizationId = authOrganizationId a,
                     a_action = ''uploaded'', a_actor = apiKeyId a, a_details = None,
                     a_correlationId = None \<rparr>],
                jobs := enqueueFileProcessing
                  \<lparr> fileId = fid, jobOrganizationId = authOrganizationId a, jobKey = key f,
                    jobBucket = bucket f, jobMimeType = mimeType f, correlationId = None \<rparr>
                  (jobs st) \<rparr>"
  have first: "confirm_upload_handler fid None a st = (Respond 200 ?body, ?st1)"
    by (rule confirm_upload_handler_pending [OF row own pending])
  have row1: "files ?st1 fid = Some ?f'" by simp
  have own1: "organizationId ?f' = authOrganizationId a" by (simp add: own)
  have up1: "status ?f' = UPLOADED" by simp
  have second: "confirm_upload_handler fid None a ?st1 =
      (Respond 400 (ErrorBody ''INVALID_STATE'' ''File is already in UPLOADED state''), ?st1)"
    by (rule confirm_upload_handler_uploaded [OF row1 own1 up1])
  have twice: "confirm_upload_twice fid a st
                = (Respond 200 ?body,
                   Respond 400 (ErrorBody ''INVALID_STATE'' ''File is already in UPLOADED state''),
                   ?st1)"
    by (simp only: confirm_upload_twice_def first second Let_def split_conv)
  show "\<exists>body st1.
            confirm_upload_handler fid None a st = (Respond 200 body, st1)
            \<and> confirm_upload_twice fid a st
                = (Respond 200 body,
                   Respond 400 (ErrorBody ''INVALID_STATE'' ''File is already in UPLOADED state''),
                   st1)
            \<and> (\<exists>f'. files st1 = (files st)(fid \<mapsto> f') \<and> status f' = UPLOADED)
            \<and> jobs st1 = enqueueFileProcessing
                  \<lparr> fileId = fid, jobOrganizationId = authOrganizationId a, jobKey = key f,
                    jobBucket = bucket f, jobMimeType = mimeType f, correlationId = None \<rparr>
                  (jobs st)"
    apply (rule exI [of _ ?body], rule exI [of _ ?st1])
    apply (intro conjI)
       apply (rule first)
      apply (rule twice)
     apply (rule exI [of _ ?f'], simp)
    apply simp
    done
qed

text \<open>
  The write on a file already \<open>PROCESSED\<close>, and the two confirmations of \<open>f1\<close> in
  sequence.
\<close>

theorem confirm_upload_unconditional_write_witness:
  "(\<exists>f'. updateFileStatus ''f1'' ''orgA'' UPLOADED None (files (example_system PROCESSED))
           = Inr (f', (files (example_system PROCESSED))(''f1'' \<mapsto> f')) \<and> status f' = UPLOADED)
   \<and> (\<exists>body st1.
         confirm_upload_twice ''f1'' callerA (example_system PENDING_UPLOAD)
           = (Respond 200 body,
              Respond 400 (ErrorBody ''INVALID_STATE'' ''File is already in UPLOADED state''), st1)
         \<and> map jobName (jobs st1) = [VALIDATE_FILE, GENERATE_CHECKSUM, EXTRACT_METADATA])"
proof -
  have row: "files (example_system s) ''f1'' = Some (example_file s)" for s
    by (simp add: example_system_def)
  have v: "organizationId (example_file s) = authOrganizationId callerA"
    "status (example_file s) = s" "mimeType (example_file s) = ''application/pdf''"
    "jobs (example_system s) = []" for s
    by (simp_all add: example_file_def callerA_def example_system_def)
  have e: "map jobName (enqueueFileProcessing d []) = [VALIDATE_FILE, GENERATE_CHECKSUM, EXTRACT_METADATA]"
    if "jobMimeType d = ''application/pdf''" for d
    using that by (simp add: enqueueFileProcessing_def queue_add_def startsWith_def Let_def)
  show ?thesis
    using confirm_upload_unconditional_write [where tbl = "files (example_system PROCESSED)"
        and fid = "''f1''" and org = "''orgA''" and s = UPLOADED and ps = None
        and st = "example_system PENDING_UPLOAD" and a = callerA]
    by (auto simp add: row v e)
qed

text \<open>
  Two confirmations of \<open>f1\<close> whose reads both come before either write: both answer
  200 and the three tasks are enqueued twice. The write itself goes through on a file
  whose status is \<open>PROCESSED\<close>, not \<open>PENDING_UPLOAD\<close>.
\<close>

theorem confirm_upload_race_both_succeed:
  "fst (confirm_upload_interleaved ''f1'' callerA (example_system PENDING_UPLOAD))
     = Respond 200 (ConfirmBody (serializeFile ''f1'' (example_file UPLOADED))
         ''File upload confirmed. Processing queued.'')
   \<and> fst (snd (confirm_upload_interleaved ''f1'' callerA (example_system PENDING_UPLOAD)))
     = Respond 200 (ConfirmBody (serializeFile ''f1'' (example_file UPLOADED))
         ''File upload confirmed. Processing queued.'')
   \<and> map jobName (jobs (snd (snd (confirm_upload_interleaved ''f1'' callerA
                                     (example_system PENDING_UPLOAD)))))
     = [VALIDATE_FILE, GENERATE_CHECKSUM, EXTRACT_METADATA,
        VALIDATE_FILE, GENERATE_CHECKSUM, EXTRACT_METADATA]
   \<and> markFileUploaded ''f1'' ''orgA'' [''f1'' \<mapsto> example_file PROCESSED]
     = Inr (example_file UPLOADED, [''f1'' \<mapsto> example_file UPLOADED])"
  by (simp add: confirm_upload_interleaved_def confirm_upload_read_def confirm_upload_continue_def
      getFileById_def markFileUploaded_def updateFileStatus_def createAuditLog_def
      enqueueFileProcessing_def queue_add_def startsWith_def serializeFile_def
      example_system_def example_file_def callerA_def Let_def)

section \<open>The transition to \<open>PROCESSED\<close>\<close>

text \<open>
  C2 (as the code has it). \<^verbatim>\<open>updateFileMetadata\<close> writes the metadata, the checksum
  (when a non-empty one is given) and the status \<open>PROCESSED\<close> in a single update of
  the row, for every file that exists, whatever its status and whatever tasks have run.
  The worker's \<^verbatim>\<open>processFileJob\<close> returns the result of its task and leaves the
  file table as it was; each of the four known tasks, the thumbnail among them, returns
  a result.
\<close>

theorem updateFileMetadata_ungated:
  "(tbl fid = None \<longrightarrow> updateFileMetadata fid md cs tbl = Inl RecordNotFound)
   \<and> (\<forall>f. tbl fid = Some f \<longrightarrow>
         updateFileMetadata fid md cs tbl
           = Inr (f\<lparr> metadata := Some md,
                     checksum := (case cs of None \<Rightarrow> checksum f
                                  | Some c \<Rightarrow> if c = [] then checksum f else Some c),
                     status := PROCESSED \<rparr>,
                  tbl(fid \<mapsto> f\<lparr> metadata := Some md,
                     checksum := (case cs of None \<Rightarrow> checksum f
                                  | Some c \<Rightarrow> if c = [] then checksum f else Some c),
                     status := PROCESSED \<rparr>)))
   \<and> snd (processFileJob now j tbl) = tbl
   \<and> (jobName j = VALIDATE_FILE \<or> jobName j = GENERATE_CHECKSUM \<or> jobName j = EXTRACT_METADATA
        \<or> jobName j = GENERATE_THUMBNAIL \<longrightarrow> (\<exists>r. fst (processFileJob now j tbl) = Inr r))"
  by (simp add: updateFileMetadata_def processFileJob_def Let_def)

text \<open>The update on \<open>f1\<close> while it is \<open>PROCESSING\<close>, and one checksum job.\<close>

theorem updateFileMetadata_ungated_witness:
  "updateFileMetadata ''f1'' (JObject [(''processingVersion'', JString ''1.0.0'')]) (Some ''sha256-1f'')
       (files (example_system PROCESSING))
     = Inr ((example_file PROCESSED)\<lparr> metadata := Some (JObject [(''processingVersion'', JString ''1.0.0'')]),
                                       checksum := Some ''sha256-1f'' \<rparr>,
            (files (example_system PROCESSING))(''f1'' \<mapsto>
               (example_file PROCESSED)\<lparr> metadata := Some (JObject [(''processingVersion'', JString ''1.0.0'')]),
                                          checksum := Some ''sha256-1f'' \<rparr>))
   \<and> (\<exists>r. fst (processFileJob 31
              \<lparr> jobName = GENERATE_CHECKSUM, jobData = example_job_data ''application/pdf'',
                jobOpts = defaultJobOptions \<rparr> (files (example_system PROCESSING))) = Inr r)"
proof -
  have row: "files (example_system s) ''f1'' = Some (example_file s)" for s
    by (simp add: example_system_def)
  have upd: "(example_file PROCESSING)\<lparr>metadata := m, checksum := c, status := PROCESSED\<rparr>
             = (example_file PROCESSED)\<lparr>metadata := m, checksum := c\<rparr>" for m c
    by (simp add: example_file_def)
  show ?thesis
    using updateFileMetadata_ungated [where tbl = "files (example_system PROCESSING)"
        and fid = "''f1''" and md = "JObject [(''processingVersion'', JString ''1.0.0'')]"
        and cs = "Some ''sha256-1f''" and now = 31
        and j = "\<lparr> jobName = GENERATE_CHECKSUM, jobData = example_job_data ''application/pdf'',
                    jobOpts = defaultJobOptions \<rparr>"]
    by (simp add: row upd)
qed

text \<open>
  A file still \<open>PENDING_UPLOAD\<close>, for which no task has run, becomes \<open>PROCESSED\<close>
  by \<^verbatim>\<open>updateFileMetadata\<close>.
\<close>

theorem updateFileMetadata_processed_without_tasks:
  "updateFileMetadata ''f1'' (JObject []) None [''f1'' \<mapsto> example_file PENDING_UPLOAD]
     = Inr ((example_file PROCESSED)\<lparr> metadata := Some (JObject []) \<rparr>,
            [''f1'' \<mapsto> (example_file PROCESSED)\<lparr> metadata := Some (JObject []) \<rparr>])
   \<and> status ((example_file PROCESSED)\<lparr> metadata := Some (JObject []) \<rparr>) = PROCESSED
   \<and> status (example_file PENDING_UPLOAD) = PENDING_UPLOAD"
  by (simp add: updateFileMetadata_def example_file_def Let_def)

section \<open>Download URLs\<close>

text \<open>
  C3 (as the code has it). For a file of the caller's organization and a caller with the
  \<open>read\<close> permission, the download-URL request answers 200 exactly when the status
  is \<open>UPLOADED\<close> or \<open>PROCESSED\<close>, and then signs one URL and writes one audit
  entry. For \<open>PENDING_UPLOAD\<close>, \<open>PROCESSING\<close> and \<open>FAILED\<close> it answers 400
  \<open>INVALID_STATE\<close>, and for \<open>DELETED\<close> 404 \<open>NOT_FOUND\<close>; in both cases
  the state is unchanged, so no URL is signed.
\<close>

theorem download_url_by_status:
  assumes row: "files st fid = Some f"
    and own: "organizationId f = authOrganizationId a"
    and perm: "requirePermission ''read'' (Some a) = Next"
  shows "(status f = UPLOADED \<or> status f = PROCESSED \<longrightarrow>
            (\<exists>u. download_url_route cfg now fid corr (Some a) st
                   = (Respond 200 (DownloadUrlBody u (now + downloadExpiry cfg * 1000) (originalName f)),
                      st\<lparr> issuedUrls := issuedUrls st @ [u],
                          auditLogs := auditLogs st @
                            [\<lparr> a_fileId = Some fid, a_organizationId = authOrganizationId a,
                               a_action = ''download_requested'', a_actor = apiKeyId a,
                               a_details = None, a_correlationId = corr \<rparr>] \<rparr>)))
       \<and> (status f = PENDING_UPLOAD \<or> status f = PROCESSING \<or> status f = FAILED \<longrightarrow>
            download_url_route cfg now fid corr (Some a) st
              = (Respond 400 (ErrorBody ''INVALID_STATE''
                   (''File is not ready for download (status: '' @ status_name (status f) @ '')'')), st))
       \<and> (status f = DELETED \<longrightarrow>
            download_url_route cfg now fid corr (Some a) st = (not_found, st))
       \<and> ((\<exists>body st'. download_url_route cfg now fid corr (Some a) st = (Respond 200 body, st'))
            = (status f = UPLOADED \<or> status f = PROCESSED))"
proof -
  have r: "download_url_route cfg now fid corr (Some a) st = download_url_handler cfg now fid corr a st"
    by (simp add: download_url_route_def route_permitted perm)
  show ?thesis
  proof (cases "status f = DELETED")
    case True
    with row have "getFileById fid (authOrganizationId a) (files st) = None"
      by (simp add: getFileById_deleted)
    with True show ?thesis
      by (simp add: r download_url_handler_def not_found_def)
  next
    case False
    with row own have g: "getFileById fid (authOrganizationId a) (files st) = Some f"
      by (simp add: getFileById_visible)
    from False show ?thesis
      by (cases "status f")
        (simp_all add: r download_url_handler_def g generateDownloadUrl_def createAuditLog_def
          Let_def)
  qed
qed

text \<open>The request for \<open>f1\<close> when it is \<open>PROCESSED\<close> and when it is \<open>PROCESSING\<close>.\<close>

theorem download_url_by_status_witness:
  "(\<exists>u. download_url_route example_config 5 ''f1'' None (Some callerA) (example_system PROCESSED)
          = (Respond 200 (DownloadUrlBody u 3600005 ''report.pdf''),
             (example_system PROCESSED)\<lparr> issuedUrls := [u],
                auditLogs := [\<lparr> a_fileId = Some ''f1'', a_organizationId = ''orgA'',
                                a_action = ''download_requested'', a_actor = ''keyA'',
                                a_details = None, a_correlationId = None \<rparr>] \<rparr>))
   \<and> download_url_route example_config 5 ''f1'' None (Some callerA) (example_system PROCESSING)
       = (Respond 400 (ErrorBody ''INVALID_STATE''
            ''File is not ready for download (status: PROCESSING)''), example_system PROCESSING)"
proof -
  have p: "requirePermission ''read'' (Some callerA) = Next"
    by (simp add: requirePermission_def callerA_def)
  have row: "files (example_system s) ''f1'' = Some (example_file s)" for s
    by (simp add: example_system_def)
  have own: "organizationId (example_file s) = authOrganizationId callerA" for s
    by (simp add: example_file_def callerA_def)
  have v: "status (example_file s) = s" "originalName (example_file s) = ''report.pdf''" for s
    by (simp_all add: example_file_def)
  have c: "authOrganizationId callerA = ''orgA''" "apiKeyId callerA = ''keyA''"
    "downloadExpiry example_config = 3600"
    "issuedUrls (example_system s) = []" "auditLogs (example_system s) = []" for s
    by (simp_all add: callerA_def example_config_def example_system_def)
  show ?thesis
    using download_url_by_status [OF row [of PROCESSED] own [of PROCESSED] p,
        where cfg = example_config and now = 5 and corr = None]
      download_url_by_status [OF row [of PROCESSING] own [of PROCESSING] p,
        where cfg = example_config and now = 5 and corr = None]
    by (simp add: v c)
qed

text \<open>
  A soft-deleted file has a status other than \<open>UPLOADED\<close> and \<open>PROCESSED\<close>, and
  the request for it answers \<open>NOT_FOUND\<close>, not \<open>INVALID_STATE\<close>.
\<close>

theorem download_url_deleted_not_invalid_state:
  "fst (download_url_route example_config 5 ''f1'' None (Some callerA) (example_system DELETED))
     = Respond 404 (ErrorBody ''NOT_FOUND'' ''File not found'')
   \<and> status (example_file DELETED) \<noteq> UPLOADED \<and> status (example_file DELETED) \<noteq> PROCESSED
   \<and> files (example_system DELETED) ''f1'' = Some (example_file DELETED)"
  by (simp add: download_url_route_def route_def requirePermission_def callerA_def
      download_url_handler_def getFileById_def example_system_def example_file_def not_found_def)

section \<open>Confirming a file that is not pending\<close>

text \<open>
  C4 (as the code has it). For a file of the caller's organization and a caller with the
  \<open>upload\<close> permission, confirming a file whose status is not \<open>PENDING_UPLOAD\<close>
  changes nothing: no transition, no audit entry, no job. The answer is 400
  \<open>INVALID_STATE\<close>, naming the status, except for a \<open>DELETED\<close> file, where it
  is 404 \<open>NOT_FOUND\<close>. In particular an \<open>UPLOADED\<close> file is refused with
  \<open>INVALID_STATE\<close>.
\<close>

theorem confirm_upload_rejects_non_pending:
  assumes row: "files st fid = Some f"
    and own: "organizationId f = authOrganizationId a"
    and perm: "requirePermission ''upload'' (Some a) = Next"
    and other: "status f \<noteq> PENDING_UPLOAD"
  shows "confirm_upload_route fid corr (Some a) st =
           (if status f = DELETED then not_found
            else Respond 400 (ErrorBody ''INVALID_STATE''
                   (''File is already in '' @ status_name (status f) @ '' state'')),
            st)"
proof (cases "status f = DELETED")
  case True
  with row have "getFileById fid (authOrganizationId a) (files st) = None"
    by (simp add: getFileById_deleted)
  with True show ?thesis
    by (simp add: confirm_upload_route_def route_permitted perm confirm_upload_handler_def
        confirm_upload_read_def confirm_upload_continue_def)
next
  case False
  with row own have "getFileById fid (authOrganizationId a) (files st) = Some f"
    by (simp add: getFileById_visible)
  with False other show ?thesis
    by (simp add: confirm_upload_route_def route_permitted perm confirm_upload_handler_def
        confirm_upload_read_def confirm_upload_continue_def)
qed

text \<open>Confirming \<open>f1\<close> when it is already \<open>UPLOADED\<close>.\<close>

theorem confirm_upload_rejects_non_pending_witness:
  "confirm_upload_route ''f1'' None (Some callerA) (example_system UPLOADED)
     = (Respond 400 (ErrorBody ''INVALID_STATE'' ''File is already in UPLOADED state''),
        example_system UPLOADED)"
proof -
  have p: "requirePermission ''upload'' (Some callerA) = Next"
    by (simp add: requirePermission_def callerA_def)
  have row: "files (example_system UPLOADED) ''f1'' = Some (example_file UPLOADED)"
    by (simp add: example_system_def)
  have own: "organizationId (example_file UPLOADED) = authOrganizationId callerA"
    by (simp add: example_file_def callerA_def)
  have other: "status (example_file UPLOADED) \<noteq> PENDING_UPLOAD"
    by (simp add: example_file_def)
  have v: "status (example_file UPLOADED) = UPLOADED"
    by (simp add: example_file_def)
  show ?thesis
    using confirm_upload_rejects_non_pending [OF row own p other, where corr = None]
    by (simp add: v)
qed

text \<open>
  Confirming a soft-deleted file, whose status is not \<open>PENDING_UPLOAD\<close>, answers
  \<open>NOT_FOUND\<close>, not \<open>INVALID_STATE\<close>.
\<close>

theorem confirm_upload_deleted_not_invalid_state:
  "confirm_upload_route ''f1'' None (Some callerA) (example_system DELETED)
     = (Respond 404 (ErrorBody ''NOT_FOUND'' ''File not found''), example_system DELETED)
   \<and> status (example_file DELETED) \<noteq> PENDING_UPLOAD
   \<and> files (example_system DELETED) ''f1'' = Some (example_file DELETED)"
  by (simp add: confirm_upload_route_def route_def requirePermission_def callerA_def
      confirm_upload_handler_def confirm_upload_read_def confirm_upload_continue_def
      getFileById_def example_system_def example_file_def not_found_def)

section \<open>Tenant isolation\<close>

text \<open>
  C5 (as the code has it). When the file asked for is absent, belongs to another
  organization than the caller's, or is soft-deleted, each of the get, download-URL,
  delete and confirm routes leaves the state as it was and answers by the caller's
  permissions alone: 404 \<open>NOT_FOUND\<close> when the caller holds the route's permission
  (\<open>read\<close>, \<open>read\<close>, \<open>delete\<close>, \<open>upload\<close>) or \<open>admin\<close>, and 403
  \<open>AUTHORIZATION_ERROR\<close> when it does not, since the permission check runs before
  the file is looked up. The answer is the same in the three cases, so the caller cannot
  tell them apart; no file and no transition comes back.
\<close>

theorem cross_tenant_hidden_file:
  assumes hidden: "case files st fid of
                     None \<Rightarrow> True
                   | Some f \<Rightarrow> organizationId f \<noteq> authOrganizationId a \<or> status f = DELETED"
  shows "get_file_route fid corr (Some a) st
           = (if ''read'' \<in> set (permissions a) \<or> ''admin'' \<in> set (permissions a)
              then not_found
              else Respond 403 (ErrorBody ''AUTHORIZATION_ERROR''
                     (''Permission '' @ [CHR 0x27] @ ''read'' @ [CHR 0x27] @ '' required.'')),
              st)
       \<and> download_url_route cfg now fid corr (Some a) st
           = (if ''read'' \<in> set (permissions a) \<or> ''admin'' \<in> set (permissions a)
              then not_found
              else Respond 403 (ErrorBody ''AUTHORIZATION_ERROR''
                     (''Permission '' @ [CHR 0x27] @ ''read'' @ [CHR 0x27] @ '' required.'')),
              st)
       \<and> delete_file_route fid corr (Some a) st
           = (if ''delete'' \<in> set (permissions a) \<or> ''admin'' \<in> set (permissions a)
              then not_found
              else Respond 403 (ErrorBody ''AUTHORIZATION_ERROR''
                     (''Permission '' @ [CHR 0x27] @ ''delete'' @ [CHR 0x27] @ '' required.'')),
              st)
       \<and> confirm_upload_route fid corr (Some a) st
           = (if ''upload'' \<in> set (permissions a) \<or> ''admin'' \<in> set (permissions a)
              then not_found
              else Respond 403 (ErrorBody ''AUTHORIZATION_ERROR''
                     (''Permission '' @ [CHR 0x27] @ ''upload'' @ [CHR 0x27] @ '' required.'')),
              st)"
proof -
  from hidden have none: "getFileById fid (authOrganizationId a) (files st) = None"
    by (simp add: getFileById_None_iff)
  have r: "route p h (Some a) st
             = (if p \<in> set (permissions a) \<or> ''admin'' \<in> set (permissions a)
                then h a st
                else (Respond 403 (ErrorBody ''AUTHORIZATION_ERROR''
                        (''Permission '' @ [CHR 0x27] @ p @ [CHR 0x27] @ '' required.'')), st))"
    for p h
    by (simp add: route_def requirePermission_def)
  have g: "get_file_handler fid corr a st = (not_found, st)"
    by (simp add: get_file_handler_def none)
  have d: "download_url_handler cfg now fid corr a st = (not_found, st)"
    by (simp add: download_url_handler_def none)
  have x: "delete_file_handler fid corr a st = (not_found, st)"
    by (simp add: delete_file_handler_def none)
  have c: "confirm_upload_handler fid corr a st = (not_found, st)"
    by (simp add: confirm_upload_handler_def confirm_upload_read_def
        confirm_upload_continue_def none)
  show ?thesis
    by (simp add: get_file_route_def download_url_route_def delete_file_route_def
        confirm_upload_route_def r g d x c)
qed

text \<open>
  A caller of \<open>orgB\<close> asking for the file of \<open>orgA\<close> on each route, the owner
  asking for it once deleted and when it was never created, and a caller of \<open>orgB\<close>
  holding only \<open>read\<close> asking to delete it.
\<close>

theorem cross_tenant_hidden_file_witness:
  "get_file_route ''f1'' None (Some callerB) (example_system UPLOADED)
     = (not_found, example_system UPLOADED)
   \<and> download_url_route example_config 0 ''f1'' None (Some callerB) (example_system UPLOADED)
     = (not_found, example_system UPLOADED)
   \<and> delete_file_route ''f1'' None (Some callerB) (example_system UPLOADED)
     = (not_found, example_system UPLOADED)
   \<and> confirm_upload_route ''f1'' None (Some callerB) (example_system PENDING_UPLOAD)
     = (not_found, example_system PENDING_UPLOAD)
   \<and> get_file_route ''f1'' None (Some callerA) (example_system DELETED)
     = (not_found, example_system DELETED)
   \<and> get_file_route ''f1'' None (Some callerA) empty_system = (not_found, empty_system)
   \<and> delete_file_route ''f1'' None (Some (callerB\<lparr> permissions := [''read''] \<rparr>))
       (example_system UPLOADED)
     = (Respond 403 (ErrorBody ''AUTHORIZATION_ERROR''
          (''Permission '' @ [CHR 0x27] @ ''delete'' @ [CHR 0x27] @ '' required.'')),
        example_system UPLOADED)"
proof -
  have pB: "permissions callerB = [''upload'', ''read'', ''delete'', ''admin'']"
    by (simp add: callerB_def)
  have pA: "permissions callerA = [''upload'', ''read'', ''delete'', ''admin'']"
    by (simp add: callerA_def)
  have hB: "case files (example_system s) ''f1'' of
              None \<Rightarrow> True
            | Some f \<Rightarrow> organizationId f \<noteq> authOrganizationId (callerB\<lparr> permissions := ps \<rparr>)
                          \<or> status f = DELETED" for s ps
    by (simp add: example_system_def example_file_def callerB_def)
  have hD: "case files (example_system DELETED) ''f1'' of
              None \<Rightarrow> True
            | Some f \<Rightarrow> organizationId f \<noteq> authOrganizationId callerA \<or> status f = DELETED"
    by (simp add: example_system_def example_file_def)
  have hE: "case files empty_system ''f1'' of
              None \<Rightarrow> True
            | Some f \<Rightarrow> organizationId f \<noteq> authOrganizationId callerA \<or> status f = DELETED"
    by (simp add: empty_system_def)
  have same: "callerB\<lparr> permissions := [''upload'', ''read'', ''delete'', ''admin''] \<rparr> = callerB"
    by (simp add: callerB_def)
  show ?thesis
    using cross_tenant_hidden_file [OF hB [where s = UPLOADED and ps = "[''upload'', ''read'', ''delete'', ''admin'']"],
        where corr = None and cfg = example_config and now = 0]
      cross_tenant_hidden_file [OF hB [where s = PENDING_UPLOAD and ps = "[''upload'', ''read'', ''delete'', ''admin'']"],
        where corr = None and cfg = example_config and now = 0]
      cross_tenant_hidden_file [OF hB [where s = UPLOADED and ps = "[''read'']"],
        where corr = None and cfg = example_config and now = 0]
      cross_tenant_hidden_file [OF hD, where corr = None and cfg = example_config and now = 0]
      cross_tenant_hidden_file [OF hE, where corr = None and cfg = example_config and now = 0]
    by (simp add: same pA pB)
qed

text \<open>
  A caller of \<open>orgB\<close> whose key holds only \<open>upload\<close> asks for the file of
  \<open>orgA\<close>: the answer is 403 \<open>AUTHORIZATION_ERROR\<close>, not \<open>NOT_FOUND\<close>.
\<close>

theorem cross_tenant_forbidden_without_permission:
  "get_file_route ''f1'' None (Some (callerB\<lparr> permissions := [''upload''] \<rparr>))
       (example_system UPLOADED)
     = (Respond 403 (ErrorBody ''AUTHORIZATION_ERROR''
          (''Permission '' @ [CHR 0x27] @ ''read'' @ [CHR 0x27] @ '' required.'')),
        example_system UPLOADED)
   \<and> files (example_system UPLOADED) ''f1'' = Some (example_file UPLOADED)
   \<and> organizationId (example_file UPLOADED) = ''orgA''
   \<and> authOrganizationId (callerB\<lparr> permissions := [''upload''] \<rparr>) = ''orgB''"
  by (simp add: get_file_route_def route_def requirePermission_def callerB_def
      example_system_def example_file_def)

section \<open>Authorization\<close>

text \<open>
  C6. For every authorization context and every required permission, the permission
  check lets the request through exactly when the permission is in the context's
  permission list or \<open>admin\<close> is; otherwise it answers 403 with the code
  \<open>AUTHORIZATION_ERROR\<close>.
\<close>

theorem requirePermission_iff:
  "(requirePermission p (Some a) = Next)
     = (p \<in> set (permissions a) \<or> ''admin'' \<in> set (permissions a))
   \<and> (requirePermission p (Some a) = Respond 403 (ErrorBody ''AUTHORIZATION_ERROR''
          (''Permission '' @ [CHR 0x27] @ p @ [CHR 0x27] @ '' required.'')))
     = (\<not> (p \<in> set (permissions a) \<or> ''admin'' \<in> set (permissions a)))"
  by (simp add: requirePermission_def)

text \<open>An admin key asked for \<open>delete\<close>, and a key holding only \<open>read\<close> and \<open>upload\<close>.\<close>

theorem requirePermission_iff_witness:
  "requirePermission ''delete'' (Some callerA) = Next
   \<and> requirePermission ''delete'' (Some (callerA\<lparr> permissions := [''read'', ''upload''] \<rparr>))
     = Respond 403 (ErrorBody ''AUTHORIZATION_ERROR''
         (''Permission '' @ [CHR 0x27] @ ''delete'' @ [CHR 0x27] @ '' required.''))"
  using requirePermission_iff [of "''delete''" callerA]
    requirePermission_iff [of "''delete''" "callerA\<lparr> permissions := [''read'', ''upload''] \<rparr>"]
  by (simp add: callerA_def)

section \<open>Authentication\<close>

text \<open>
  C7. \<^verbatim>\<open>validateApiKey\<close> returns \<open>None\<close> and leaves the store untouched, with no
  lookup recorded, when the key is empty or does not start with \<open>cv_\<close>; otherwise it
  makes exactly one lookup, by the key's hash. It returns \<open>None\<close> when the row found
  has an expiry before the current time. When the row found has no expiry or one not
  yet passed, it returns the row, also when the update of the last-used time fails: the
  result does not depend on whether that update goes through.
\<close>

theorem validateApiKey_checks:
  "(k = [] \<or> \<not> startsWith k ''cv_'' \<longrightarrow> validateApiKey H now ok k store = (None, store))
   \<and> (k \<noteq> [] \<and> startsWith k ''cv_'' \<longrightarrow>
        hashLookups (snd (validateApiKey H now ok k store))
          = hashLookups store @ [hashApiKey H k])
   \<and> (\<forall>r t. k \<noteq> [] \<and> startsWith k ''cv_''
            \<and> find (\<lambda>r. hashedKey r = hashApiKey H k) (apiKeys store) = Some r
            \<and> expiresAt r = Some t \<and> t < now \<longrightarrow>
         fst (validateApiKey H now ok k store) = None)
   \<and> (\<forall>r. k \<noteq> [] \<and> startsWith k ''cv_''
          \<and> find (\<lambda>r. hashedKey r = hashApiKey H k) (apiKeys store) = Some r
          \<and> (case expiresAt r of None \<Rightarrow> True | Some t \<Rightarrow> now \<le> t) \<longrightarrow>
         fst (validateApiKey H now ok k store) = Some r
         \<and> validateApiKey H now False k store
             = (Some r, store\<lparr> hashLookups := hashLookups store @ [hashApiKey H k] \<rparr>))
   \<and> fst (validateApiKey H now False k store) = fst (validateApiKey H now True k store)"
  by (auto simp add: validateApiKey_def touchLastUsed_def Let_def split: option.splits)

text \<open>
  A key with another prefix, an expired key, and a live key whose last-used update
  fails.
\<close>

theorem validateApiKey_checks_witness:
  "validateApiKey example_digest 20 True ''sk_ab'' (example_store [example_key_row ''cv_ab'' None])
     = (None, example_store [example_key_row ''cv_ab'' None])
   \<and> fst (validateApiKey example_digest 20 True ''cv_ab''
            (example_store [example_key_row ''cv_ab'' (Some 10)])) = None
   \<and> validateApiKey example_digest 20 False ''cv_ab''
        (example_store [example_key_row ''cv_ab'' (Some 30)])
     = (Some (example_key_row ''cv_ab'' (Some 30)),
        (example_store [example_key_row ''cv_ab'' (Some 30)])\<lparr> hashLookups := [''ba_vc''] \<rparr>)"
proof -
  have f: "\<not> startsWith ''sk_ab'' ''cv_''" "startsWith ''cv_ab'' ''cv_''"
    by (simp_all add: startsWith_def)
  have h: "hashApiKey example_digest ''cv_ab'' = ''ba_vc''"
    by (simp add: hashApiKey_def example_digest_def)
  have l: "find (\<lambda>r. hashedKey r = ''ba_vc'') (apiKeys (example_store [example_key_row ''cv_ab'' e]))
           = Some (example_key_row ''cv_ab'' e)" for e
    by (simp add: example_store_def example_key_row_def example_digest_def)
  have e: "expiresAt (example_key_row raw x) = x" for raw x
    by (simp add: example_key_row_def)
  have s: "hashLookups (example_store rows) = []" for rows
    by (simp add: example_store_def)
  show ?thesis
    using validateApiKey_checks [where k = "''sk_ab''" and H = example_digest and now = 20
        and ok = True and store = "example_store [example_key_row ''cv_ab'' None]"]
      validateApiKey_checks [where k = "''cv_ab''" and H = example_digest and now = 20
        and ok = True and store = "example_store [example_key_row ''cv_ab'' (Some 10)]"]
      validateApiKey_checks [where k = "''cv_ab''" and H = example_digest and now = 20
        and ok = False and store = "example_store [example_key_row ''cv_ab'' (Some 30)]"]
    by (simp add: f h l e s)
qed

section \<open>Tasks enqueued on confirmation\<close>

text \<open>
  C8. \<^verbatim>\<open>enqueueFileProcessing\<close> adds to the queue the jobs \<open>validate-file\<close>,
  \<open>generate-checksum\<close> and \<open>extract-metadata\<close>, and after them
  \<open>generate-thumbnail\<close> exactly when the MIME type starts with \<open>image/\<close>, and
  nothing else. Every job added carries the data of the file and the queue's options:
  3 attempts, exponential backoff from 1000 ms. A successful confirmation enqueues
  exactly these jobs for the confirmed file.
\<close>

theorem enqueueFileProcessing_tasks:
  "(\<exists>new. enqueueFileProcessing d js = js @ new
       \<and> map jobName new
           = [''validate-file'', ''generate-checksum'', ''extract-metadata'']
             @ (if startsWith (jobMimeType d) ''image/'' then [''generate-thumbnail''] else [])
       \<and> list_all (\<lambda>j. jobData j = d \<and> attempts (jobOpts j) = 3
                        \<and> backoffType (backoff (jobOpts j)) = ''exponential''
                        \<and> backoffDelay (backoff (jobOpts j)) = 1000) new)
   \<and> (\<forall>f. files st fid = Some f \<and> organizationId f = authOrganizationId a
            \<and> status f = PENDING_UPLOAD \<and> requirePermission ''upload'' (Some a) = Next \<longrightarrow>
         jobs (snd (confirm_upload_route fid corr (Some a) st))
           = enqueueFileProcessing
               \<lparr> fileId = fid, jobOrganizationId = authOrganizationId a, jobKey = key f,
                 jobBucket = bucket f, jobMimeType = mimeType f, correlationId = corr \<rparr>
               (jobs st))"
proof (intro conjI allI impI)
  show "\<exists>new. enqueueFileProcessing d js = js @ new
       \<and> map jobName new
           = [''validate-file'', ''generate-checksum'', ''extract-metadata'']
             @ (if startsWith (jobMimeType d) ''image/'' then [''generate-thumbnail''] else [])
       \<and> list_all (\<lambda>j. jobData j = d \<and> attempts (jobOpts j) = 3
                        \<and> backoffType (backoff (jobOpts j)) = ''exponential''
                        \<and> backoffDelay (backoff (jobOpts j)) = 1000) new"
    by (simp add: enqueueFileProcessing_def queue_add_def defaultJobOptions_def Let_def
        VALIDATE_FILE_def GENERATE_CHECKSUM_def EXTRACT_METADATA_def GENERATE_THUMBNAIL_def)
next
  fix f
  assume h: "files st fid = Some f \<and> organizationId f = authOrganizationId a
             \<and> status f = PENDING_UPLOAD \<and> requirePermission ''upload'' (Some a) = Next"
  then have "confirm_upload_route fid corr (Some a) st = confirm_upload_handler fid corr a st"
    by (simp add: confirm_upload_route_def route_permitted)
  with h show "jobs (snd (confirm_upload_route fid corr (Some a) st))
           = enqueueFileProcessing
               \<lparr> fileId = fid, jobOrganizationId = authOrganizationId a, jobKey = key f,
                 jobBucket = bucket f, jobMimeType = mimeType f, correlationId = corr \<rparr>
               (jobs st)"
    by (simp add: confirm_upload_handler_pending)
qed

text \<open>A PNG image, a PDF, and the confirmation of \<open>f1\<close>.\<close>

theorem enqueueFileProcessing_tasks_witness:
  "map jobName (enqueueFileProcessing (example_job_data ''image/png'') [])
     = [''validate-file'', ''generate-checksum'', ''extract-metadata'', ''generate-thumbnail'']
   \<and> map jobName (enqueueFileProcessing (example_job_data ''application/pdf'') [])
     = [''validate-file'', ''generate-checksum'', ''extract-metadata'']
   \<and> map jobName (jobs (snd (confirm_upload_route ''f1'' None (Some callerA)
                                (example_system PENDING_UPLOAD))))
     = [''validate-file'', ''generate-checksum'', ''extract-metadata'']"
proof -
  have m: "jobMimeType (example_job_data mt) = mt" for mt
    by (simp add: example_job_data_def)
  have s: "startsWith ''image/png'' ''image/''" "\<not> startsWith ''application/pdf'' ''image/''"
    by (simp_all add: startsWith_def)
  have p: "requirePermission ''upload'' (Some callerA) = Next"
    by (simp add: requirePermission_def callerA_def)
  have row: "files (example_system PENDING_UPLOAD) ''f1'' = Some (example_file PENDING_UPLOAD)"
    by (simp add: example_system_def)
  have v: "organizationId (example_file PENDING_UPLOAD) = authOrganizationId callerA"
    "status (example_file PENDING_UPLOAD) = PENDING_UPLOAD"
    "jobs (example_system PENDING_UPLOAD) = []"
    by (simp_all add: example_file_def callerA_def example_system_def)
  have d: "\<lparr> fileId = ''f1'', jobOrganizationId = authOrganizationId callerA,
             jobKey = key (example_file PENDING_UPLOAD),
             jobBucket = bucket (example_file PENDING_UPLOAD),
             jobMimeType = mimeType (example_file PENDING_UPLOAD), correlationId = None \<rparr>
           = example_job_data ''application/pdf''"
    by (simp add: example_job_data_def example_file_def callerA_def)
  show ?thesis
    using enqueueFileProcessing_tasks [where d = "example_job_data ''image/png''" and js = "[]"
        and st = "example_system PENDING_UPLOAD" and fid = "''f1''" and a = callerA
        and corr = None]
      enqueueFileProcessing_tasks [where d = "example_job_data ''application/pdf''" and js = "[]"
        and st = "example_system PENDING_UPLOAD" and fid = "''f1''" and a = callerA
        and corr = None]
    by (auto simp add: m s p row v d)
qed

section \<open>Requesting an upload\<close>

text \<open>
  C9. For a caller with the \<open>upload\<close> permission, the upload-URL request answers
  400 \<open>VALIDATION_ERROR\<close> and changes nothing when the content type is not an allowed
  one, or the size is above 104857600 (100 MB), not positive, or not an integer. When the
  body passes the schema (and the id the database picks is new), the request answers 201,
  the file table holds the new row with status \<open>PENDING_UPLOAD\<close> and no checksum, and
  the only URL signed is the one for the \<^verbatim>\<open>PutObject\<close> of that row's key: the row
  exists before the caller has a URL to send bytes to.
\<close>

theorem upload_url_validates_then_creates:
  assumes perm: "requirePermission ''upload'' (Some a) = Next"
  shows "(req_contentType b \<notin> set ALLOWED_MIME_TYPES \<or> 104857600 < req_size b
            \<or> req_size b \<le> 0 \<or> \<not> isInteger (req_size b) \<longrightarrow>
          upload_url_route cfg now nano newId corr b (Some a) st
            = (Respond 400 (ErrorBody ''VALIDATION_ERROR'' ''Invalid request body''), st))
       \<and> (uploadRequestSchema b \<and> files st newId = None \<longrightarrow>
            (\<exists>f u k audit.
               upload_url_route cfg now nano newId corr b (Some a) st
                 = (Respond 201 (UploadUrlBody newId u k (now + uploadExpiry cfg * 1000)),
                    st\<lparr> files := (files st)(newId \<mapsto> f),
                        auditLogs := auditLogs st @ [audit],
                        issuedUrls := issuedUrls st @ [u] \<rparr>)
               \<and> status f = PENDING_UPLOAD
               \<and> organizationId f = authOrganizationId a
               \<and> originalName f = req_filename b
               \<and> mimeType f = req_contentType b
               \<and> of_int (fsize f) = req_size b
               \<and> checksum f = None
               \<and> key f = k
               \<and> a_action audit = ''upload_requested''
               \<and> url_command u = PutObject (cfg_bucket cfg) k (req_contentType b) (req_size b)))"
proof -
  have r: "upload_url_route cfg now nano newId corr b (Some a) st
           = upload_url_handler cfg now nano newId corr b a st"
    by (simp add: upload_url_route_def route_permitted perm)
  have bad: "\<not> uploadRequestSchema b"
    if "req_contentType b \<notin> set ALLOWED_MIME_TYPES \<or> 104857600 < req_size b
            \<or> req_size b \<le> 0 \<or> \<not> isInteger (req_size b)"
    using that by (auto simp add: uploadRequestSchema_def MAX_FILE_SIZE_def)
  have reject: "upload_url_handler cfg now nano newId corr b a st
                = (Respond 400 (ErrorBody ''VALIDATION_ERROR'' ''Invalid request body''), st)"
    if "\<not> uploadRequestSchema b"
    using that by (simp add: upload_url_handler_def)
  let ?k = "authOrganizationId a @ ''/'' @ nano @ ''/'' @ req_filename b"
  let ?f = "\<lparr> organizationId = authOrganizationId a, bucket = cfg_bucket cfg, key = ?k,
              originalName = req_filename b, mimeType = req_contentType b,
              fsize = \<lfloor>req_size b\<rfloor>, checksum = None, status = PENDING_UPLOAD,
              processingState = None, metadata = req_metadata b,
              tags = (case req_tags b of None \<Rightarrow> [] | Some ts \<Rightarrow> ts),
              uploadedBy = Some (apiKeyId a) \<rparr>"
  let ?u = "\<lparr> url_command = PutObject (cfg_bucket cfg) ?k (req_contentType b) (req_size b),
              url_expiresIn = uploadExpiry cfg \<rparr>"
  let ?audit = "\<lparr> a_fileId = Some newId, a_organizationId = authOrganizationId a,
                  a_action = ''upload_requested'', a_actor = apiKeyId a,
                  a_details = Some (JObject
                    [(''filename'', JString (req_filename b)),
                     (''contentType'', JString (req_contentType b)),
                     (''size'', JNumber \<lfloor>req_size b\<rfloor>)]),
                  a_correlationId = corr \<rparr>"
  have accept: "upload_url_handler cfg now nano newId corr b a st
                 = (Respond 201 (UploadUrlBody newId ?u ?k (now + uploadExpiry cfg * 1000)),
                    st\<lparr> files := (files st)(newId \<mapsto> ?f),
                        auditLogs := auditLogs st @ [?audit],
                        issuedUrls := issuedUrls st @ [?u] \<rparr>)"
      and size_kept: "of_int (fsize ?f) = req_size b"
    if ok: "uploadRequestSchema b" and fresh: "files st newId = None"
  proof -
    from ok have int: "isInteger (req_size b)"
      by (simp add: uploadRequestSchema_def)
    then show "of_int (fsize ?f) = req_size b"
      by (simp add: isInteger_def)
    show "upload_url_handler cfg now nano newId corr b a st
                 = (Respond 201 (UploadUrlBody newId ?u ?k (now + uploadExpiry cfg * 1000)),
                    st\<lparr> files := (files st)(newId \<mapsto> ?f),
                        auditLogs := auditLogs st @ [?audit],
                        issuedUrls := issuedUrls st @ [?u] \<rparr>)"
      by (simp add: upload_url_handler_def ok createFileRecord_def int fresh generateUploadUrl_def
          createAuditLog_def Let_def)
  qed
  show ?thesis
  proof (intro conjI impI)
    assume "req_contentType b \<notin> set ALLOWED_MIME_TYPES \<or> 104857600 < req_size b
            \<or> req_size b \<le> 0 \<or> \<not> isInteger (req_size b)"
    then show "upload_url_route cfg now nano newId corr b (Some a) st
            = (Respond 400 (ErrorBody ''VALIDATION_ERROR'' ''Invalid request body''), st)"
      by (simp only: r reject [OF bad])
  next
    assume h: "uploadRequestSchema b \<and> files st newId = None"
    then have ok: "uploadRequestSchema b" and fresh: "files st newId = None"
      by simp_all
    show "\<exists>f u k audit.
               upload_url_route cfg now nano newId corr b (Some a) st
                 = (Respond 201 (UploadUrlBody newId u k (now + uploadExpiry cfg * 1000)),
                    st\<lparr> files := (files st)(newId \<mapsto> f),
                        auditLogs := auditLogs st @ [audit],
                        issuedUrls := issuedUrls st @ [u] \<rparr>)
               \<and> status f = PENDING_UPLOAD
               \<and> organizationId f = authOrganizationId a
               \<and> originalName f = req_filename b
               \<and> mimeType f = req_contentType b
               \<and> of_int (fsize f) = req_size b
               \<and> checksum f = None
               \<and> key f = k
               \<and> a_action audit = ''upload_requested''
               \<and> url_command u = PutObject (cfg_bucket cfg) k (req_contentType b) (req_size b)"
      apply (rule exI [of _ ?f], rule exI [of _ ?u], rule exI [of _ ?k], rule exI [of _ ?audit])
      apply (simp only: r accept [OF ok fresh] size_kept [OF ok fresh])
      apply simp
      done
  qed
qed

text \<open>
  A ZIP file, a size of one and a half bytes, and the request of the specification's
  scenario.
\<close>

theorem upload_url_validates_then_creates_witness:
  "upload_url_route example_config 5 ''n1'' ''f1'' None
       (example_request\<lparr> req_contentType := ''application/zip'' \<rparr>) (Some callerA) empty_system
     = (Respond 400 (ErrorBody ''VALIDATION_ERROR'' ''Invalid request body''), empty_system)
   \<and> upload_url_route example_config 5 ''n1'' ''f1'' None
       (example_request\<lparr> req_size := 3 / 2 \<rparr>) (Some callerA) empty_system
     = (Respond 400 (ErrorBody ''VALIDATION_ERROR'' ''Invalid request body''), empty_system)
   \<and> (\<exists>f u k audit.
         upload_url_route example_config 5 ''n1'' ''f1'' None example_request (Some callerA) empty_system
           = (Respond 201 (UploadUrlBody ''f1'' u k 3600005),
              empty_system\<lparr> files := [''f1'' \<mapsto> f], auditLogs := [audit], issuedUrls := [u] \<rparr>)
         \<and> status f = PENDING_UPLOAD \<and> fsize f = 1200)"
proof -
  have p: "requirePermission ''upload'' (Some callerA) = Next"
    by (simp add: requirePermission_def callerA_def)
  have b1: "req_contentType (example_request\<lparr> req_contentType := ''application/zip'' \<rparr>)
              \<notin> set ALLOWED_MIME_TYPES"
    by (simp add: ALLOWED_MIME_TYPES_def)
  have "\<lfloor>(3::rat) / 2\<rfloor> = 1"
    by linarith
  then have b2: "\<not> isInteger (req_size (example_request\<lparr> req_size := 3 / 2 \<rparr>))"
    by (simp add: isInteger_def)
  have ok: "uploadRequestSchema example_request"
    by (simp add: uploadRequestSchema_def example_request_def ALLOWED_MIME_TYPES_def
        MAX_FILE_SIZE_def isInteger_def)
  have e: "files empty_system = Map.empty" "auditLogs empty_system = []"
    "issuedUrls empty_system = []" "uploadExpiry example_config = 3600"
    "req_size example_request = 1200"
    by (simp_all add: empty_system_def example_config_def example_request_def)
  have i: "(of_int n = (1200::rat)) = (n = 1200)" for n :: int
    by (metis of_int_eq_iff of_int_numeral)
  show ?thesis
    using upload_url_validates_then_creates [OF p, where cfg = example_config and now = 5
        and nano = "''n1''" and newId = "''f1''" and corr = None and st = empty_system
        and b = "example_request\<lparr> req_contentType := ''application/zip'' \<rparr>"]
      upload_url_validates_then_creates [OF p, where cfg = example_config and now = 5
        and nano = "''n1''" and newId = "''f1''" and corr = None and st = empty_system
        and b = "example_request\<lparr> req_size := 3 / 2 \<rparr>"]
      upload_url_validates_then_creates [OF p, where cfg = example_config and now = 5
        and nano = "''n1''" and newId = "''f1''" and corr = None and st = empty_system
        and b = example_request]
    apply (simp only: b1 b2 ok e simp_thms)
    apply (auto simp add: i)
    done
qed

section \<open>Key generation\<close>



end
